theory Spec2Isabelle
  imports Complex_Main "HOL-Library.Multiset" "HOL-Library.Log_Nat"
begin

section \<open>The poverty dashboard: data model\<close>

text \<open>
  The program is one script, \<^verbatim>\<open>poverty_dashboard/app.py\<close>. It reads a CSV file of
  governorate poverty rates into a pandas data frame, attaches a region to every row from
  a dictionary written out in the code, and derives the figures of its pages from that
  frame and from a second, hand-written table of regions.

  A data frame is modelled as the list of its column names together with the list of its
  rows. A row has one field for every column the script ever gives a governorate frame.
  A cell that pandas holds as NaN (a missing value) is \<open>None\<close>; the columns
  \<open>Name\<close>, \<open>Poverty_Rate\<close> and \<open>Type\<close> are never missing in a row that
  the script builds. A poverty rate is a finite float; it is modelled by the real number
  it denotes, so that comparisons of rates are exact.

  Python strings are sequences of code points; here a string is the list of the bytes
  of its UTF-8 encoding. Only equality of strings is used, which the encoding preserves.
\<close>

record gov_row =
  Name :: string
  Governorate :: "string option"
  Region :: "string option"
  Poverty_Rate :: real
  Type :: string
  display_name :: "string option"

record dataframe =
  columns :: "string list"
  rows :: "gov_row list"

text \<open>
  A row of the CSV file as \<^verbatim>\<open>pd.read_csv\<close> returns it: the cell of column
  \<open>Governorate\<close> and the cell of column \<open>Poverty_Rate\<close>.
\<close>

type_synonym csv_row = "string \<times> real"

text \<open>
  Exceptions. Reading a file either raises or yields the parsed content; the only class
  the script names is \<open>FileNotFoundError\<close>, every other exception (a parser error
  of pandas, a \<open>JSONDecodeError\<close>, a \<open>PermissionError\<close>) is \<open>OtherError\<close>
  with the name of its class.
\<close>

datatype exn = FileNotFoundError | OtherError string

text \<open>
  What a call of \<open>load_data\<close> does: it raises, or it returns a pair; the script
  returns \<open>(None, None)\<close> from its handler.
\<close>

datatype ('d, 'g) outcome = Raised exn | Returned "'d option" "'g option"

section \<open>The enrichment in \<open>load_data\<close>\<close>

definition region_map :: "(string \<times> string) list" where
  "region_map =
    [(''Tunis'', ''Grand Tunis''), (''Ariana'', ''Grand Tunis''),
     (''Ben Arous'', ''Grand Tunis''), (''Manouba'', ''Grand Tunis''),
     (''Nabeul'', ''Nord-Est''), (''Zaghouan'', ''Nord-Est''), (''Bizerte'', ''Nord-Est''),
     (''Beja'', ''Nord-Ouest''), (''Jendouba'', ''Nord-Ouest''),
     (''Le Kef'', ''Nord-Ouest''), (''Siliana'', ''Nord-Ouest''),
     (''Sousse'', ''Centre-Est''), (''Monastir'', ''Centre-Est''),
     (''Mahdia'', ''Centre-Est''), (''Sfax'', ''Centre-Est''),
     (''Kairouan'', ''Centre-Ouest''), (''Kasserine'', ''Centre-Ouest''),
     (''Sidi Bouzid'', ''Centre-Ouest''),
     (''Gabes'', ''Sud-Est''), (''Medenine'', ''Sud-Est''), (''Tataouine'', ''Sud-Est''),
     (''Gafsa'', ''Sud-Ouest''), (''Tozeur'', ''Sud-Ouest''), (''Kebili'', ''Sud-Ouest'')]"

text \<open>
  The three statements
  \<^verbatim>\<open>df_poverty.rename(columns={'Governorate': 'Name'}, inplace=True)\<close>,
  \<^verbatim>\<open>df_poverty['Type'] = 'Gouvernorat'\<close> and
  \<^verbatim>\<open>df_poverty['Region'] = df_poverty['Name'].map(region_map)\<close>, row by row.
  \<open>Series.map\<close> with a dictionary looks every value up and gives NaN for a value
  that is not a key; it does not raise.
\<close>

definition enrich_row :: "csv_row \<Rightarrow> gov_row" where
  "enrich_row r =
    \<lparr>Name = fst r, Governorate = None, Region = map_of region_map (fst r),
     Poverty_Rate = snd r, Type = ''Gouvernorat'', display_name = None\<rparr>"

definition enriched :: "csv_row list \<Rightarrow> dataframe" where
  "enriched raw =
    \<lparr>columns = [''Name'', ''Poverty_Rate'', ''Type'', ''Region''],
     rows = map enrich_row raw\<rparr>"

text \<open>
  \<^verbatim>\<open>pd.DataFrame(columns=['Name', 'Governorate', 'Region', 'Poverty_Rate', 'Type'])\<close>:
  a frame with these five columns and no row.
\<close>

definition df_delegations :: dataframe where
  "df_delegations =
    \<lparr>columns = [''Name'', ''Governorate'', ''Region'', ''Poverty_Rate'', ''Type''],
     rows = []\<rparr>"

text \<open>
  \<^verbatim>\<open>pd.concat([a, b], ignore_index=True)\<close>: the rows of \<open>a\<close>, then the rows of
  \<open>b\<close>; the columns of \<open>a\<close>, then the columns of \<open>b\<close> that \<open>a\<close> does not
  have (an outer join). The cells of a column that a frame lacks are NaN, which is what
  the row already says with \<open>None\<close>. The second frame is empty here, and the
  rate column is taken to stay a column of floats.
\<close>

definition concat_frames :: "dataframe \<Rightarrow> dataframe \<Rightarrow> dataframe" where
  "concat_frames a b =
    \<lparr>columns = columns a @ filter (\<lambda>c. c \<notin> set (columns a)) (columns b),
     rows = rows a @ rows b\<rparr>"

definition enrich :: "csv_row list \<Rightarrow> dataframe" where
  "enrich raw = concat_frames (enriched raw) df_delegations"

text \<open>
  \<open>load_data\<close>: the two reads in their order, inside
  \<^verbatim>\<open>try: ... except FileNotFoundError\<close>. The handler reports the error on the
  page and returns \<open>(None, None)\<close>; any other exception leaves the function.
  The content of the geographic file is not inspected, so its type is a parameter.
\<close>

definition handler :: "exn \<Rightarrow> (dataframe, 'g) outcome" where
  "handler e = (if e = FileNotFoundError then Returned None None else Raised e)"

definition load_data :: "exn + csv_row list \<Rightarrow> exn + 'g \<Rightarrow> (dataframe, 'g) outcome" where
  "load_data csv geojson =
    (case csv of
       Inl e \<Rightarrow> handler e
     | Inr raw \<Rightarrow>
        (case geojson of
           Inl e \<Rightarrow> handler e
         | Inr geojson_data \<Rightarrow> Returned (Some (enrich raw)) (Some geojson_data)))"

section \<open>The regional summary table\<close>

text \<open>
  A Python float literal denotes the binary64 number nearest to the decimal written
  (ties to even), and a product or a quotient of two floats is the binary64 number
  nearest to the exact result. \<open>binary64\<close> is that rounding, for results below the
  overflow threshold \<open>2 ^ 1024\<close>, which nothing in this program comes near.
  \<open>ilog2 x\<close> is the integer part of the binary logarithm of a positive \<open>x\<close>.
\<close>

definition round_half_even :: "real \<Rightarrow> int" where
  "round_half_even x =
    (let f = \<lfloor>x\<rfloor>; d = x - of_int f
     in if d < 1 / 2 then f else if 1 / 2 < d then f + 1 else if even f then f else f + 1)"

definition pow2 :: "int \<Rightarrow> real" where
  "pow2 e = (if 0 \<le> e then 2 ^ nat e else 1 / 2 ^ nat (- e))"

definition ilog2 :: "real \<Rightarrow> int" where
  "ilog2 x =
    (if 1 \<le> x then bitlen \<lfloor>x\<rfloor> - 1
     else let y = 1 / x; k = bitlen \<lfloor>y\<rfloor> - 1
          in if y = 2 ^ nat k then - k else - k - 1)"

definition binary64 :: "real \<Rightarrow> real" where
  "binary64 x =
    (if x = 0 then 0
     else let u = pow2 (max (ilog2 \<bar>x\<bar> - 52) (- 1074))
          in of_int (round_half_even (x / u)) * u)"

definition fmul :: "real \<Rightarrow> real \<Rightarrow> real" where
  "fmul a b = binary64 (a * b)"

definition fdiv :: "real \<Rightarrow> real \<Rightarrow> real" where
  "fdiv a b = binary64 (a / b)"

record region_row =
  Region_name :: string
  Taux_Pauvrete :: real
  Population :: int
  Gouvernorats :: string

text \<open>
  The dictionary \<open>region_summary\<close>, one constant for each of its four lists. Its keys
  \<^verbatim>\<open>'R\'egion'\<close> and \<^verbatim>\<open>'Taux_Pauvret\'e'\<close> carry an accent in the source; the
  names here are \<open>Region_name\<close> and \<open>Taux_Pauvrete\<close>. The letter e with an acute
  accent is the two bytes \<open>0xC3 0xA9\<close> in UTF-8.
\<close>

definition region_summary_Region :: "string list" where
  "region_summary_Region =
    [''Grand Tunis'', ''Nord-Est'', ''Nord-Ouest'', ''Centre-Est'', ''Centre-Ouest'',
     ''Sud-Est'', ''Sud-Ouest'']"

definition region_summary_Taux_Pauvrete :: "real list" where
  "region_summary_Taux_Pauvrete =
    map binary64 [61 / 10, 119 / 10, 258 / 10, 117 / 10, 293 / 10, 178 / 10, 182 / 10]"

definition region_summary_Population :: "int list" where
  "region_summary_Population =
    [2719000, 1533064, 1378596, 2580032, 1439714, 1003273, 602204]"

definition region_summary_Gouvernorats :: "string list" where
  "region_summary_Gouvernorats =
    [''Tunis, Ariana, Ben Arous, Manouba'',
     ''Nabeul, Zaghouan, Bizerte'',
     ''Beja, Jendouba, Le Kef, Seliana'',
     ''Sousse, Monastir, Mahdia, Sfax'',
     ''Kairouan, Kasserine, Sidi Bouzid'',
     ''Gabes, M'' @ [char_of (0xC3 :: nat), char_of (0xA9 :: nat)] @ ''denine, Tataouine'',
     ''Gafsa, Tozeur, Kebili'']"

text \<open>\<^verbatim>\<open>df_regions = pd.DataFrame(region_summary)\<close>: row \<open>i\<close> holds entry \<open>i\<close> of each list.\<close>

definition df_regions :: "region_row list" where
  "df_regions =
    map (\<lambda>(r, t, p, g). \<lparr>Region_name = r, Taux_Pauvrete = t, Population = p, Gouvernorats = g\<rparr>)
      (zip region_summary_Region
        (zip region_summary_Taux_Pauvrete
          (zip region_summary_Population region_summary_Gouvernorats)))"

section \<open>The aggregation routines of the pages\<close>

text \<open>
  \<^verbatim>\<open>gov_data = df_poverty[df_poverty['Type'] == 'Gouvernorat']\<close>: the rows whose type is
  that of a governorate, in their order.
\<close>

definition gov_data :: "dataframe \<Rightarrow> dataframe" where
  "gov_data df_poverty = df_poverty\<lparr>rows := filter (\<lambda>r. Type r = ''Gouvernorat'') (rows df_poverty)\<rparr>"

subsection \<open>Rank\<close>

text \<open>
  \<^verbatim>\<open>rank = (gov_data['Poverty_Rate'] > gov_info['Poverty_Rate']).sum() + 1\<close>: the
  comparison gives a column of booleans, and the sum counts \<open>True\<close> as 1.
\<close>

definition rank :: "real \<Rightarrow> real list \<Rightarrow> nat" where
  "rank rate allRates = sum_list (map (\<lambda>r. if rate < r then 1 else 0) allRates) + 1"

text \<open>
  \<^verbatim>\<open>gov_info = gov_data[gov_data['Name'] == selected_gov].iloc[0]\<close> is the first row with
  the selected name; \<open>iloc[0]\<close> raises an \<open>IndexError\<close> when there is none.
\<close>

definition gov_info :: "dataframe \<Rightarrow> string \<Rightarrow> exn + gov_row" where
  "gov_info gd selected_gov =
    (case filter (\<lambda>r. Name r = selected_gov) (rows gd) of
       [] \<Rightarrow> Inl (OtherError ''IndexError'')
     | r # _ \<Rightarrow> Inr r)"

definition rank_of :: "dataframe \<Rightarrow> string \<Rightarrow> exn + nat" where
  "rank_of gd selected_gov =
    (case gov_info gd selected_gov of
       Inl e \<Rightarrow> Inl e
     | Inr info \<Rightarrow> Inr (rank (Poverty_Rate info) (map Poverty_Rate (rows gd))))"

subsection \<open>The five poorest and the five richest\<close>

text \<open>
  A column of a frame has a dtype. Which dtype the rate column has when a page runs is
  decided by pandas and by the file, not by the script: \<open>read_csv\<close> makes it
  \<open>int64\<close> or \<open>float64\<close> by the way the cells are written, and the concat
  with the empty placeholder, whose columns are of dtype \<open>object\<close>, keeps it or
  turns it to \<open>object\<close>, depending on the version of pandas and on the dtype
  before. The dtype is therefore an argument of the operations that depend on it.
\<close>

datatype dtype = Float64 | Int64 | Object





subsection \<open>The estimate of the poor population\<close>

text \<open>
  \<^verbatim>\<open>int(region_data['Population'] * region_data['Taux_Pauvret\'e'] / 100)\<close>: the integer
  population becomes a float, the product and the quotient are float operations, and
  \<open>int\<close> cuts the fraction off (towards zero).
\<close>

definition py_int :: "real \<Rightarrow> int" where
  "py_int x = (if 0 \<le> x then \<lfloor>x\<rfloor> else \<lceil>x\<rceil>)"

definition poor_population :: "region_row \<Rightarrow> int" where
  "poor_population region_data =
    py_int (fdiv (fmul (binary64 (of_int (Population region_data))) (Taux_Pauvrete region_data)) 100)"

text \<open>
  \<^verbatim>\<open>region_data = df_regions[df_regions['R\'egion'] == selected_region].iloc[0]\<close>
\<close>

definition region_data :: "string \<Rightarrow> exn + region_row" where
  "region_data selected_region =
    (case filter (\<lambda>r. Region_name r = selected_region) df_regions of
       [] \<Rightarrow> Inl (OtherError ''IndexError'')
     | r # _ \<Rightarrow> Inr r)"

section \<open>The frame of the map\<close>

text \<open>
  The map page takes the governorate rows of \<open>df_poverty\<close>, copies them, and
  changes the copy in place. Frames are objects: a variable holds the address of one,
  and an assignment to a column changes the object at that address, whoever else holds
  it. The state is the store of the frames and the next free address.
\<close>

record state =
  heap :: "nat \<Rightarrow> dataframe option"
  next_addr :: nat

definition new_frame :: "dataframe \<Rightarrow> state \<Rightarrow> nat \<times> state" where
  "new_frame df s =
    (next_addr s, s\<lparr>heap := (heap s)(next_addr s \<mapsto> df), next_addr := Suc (next_addr s)\<rparr>)"

text \<open>\<^verbatim>\<open>df[df['Type'] == 'Gouvernorat']\<close> builds a new frame of the selected rows.\<close>

definition select_gouvernorat :: "nat \<Rightarrow> state \<Rightarrow> (nat \<times> state) option" where
  "select_gouvernorat a s =
    (case heap s a of None \<Rightarrow> None | Some df \<Rightarrow> Some (new_frame (gov_data df) s))"

text \<open>\<^verbatim>\<open>.copy()\<close> builds a new frame with the same content.\<close>

definition copy :: "nat \<Rightarrow> state \<Rightarrow> (nat \<times> state) option" where
  "copy a s = (case heap s a of None \<Rightarrow> None | Some df \<Rightarrow> Some (new_frame df s))"

text \<open>
  \<^verbatim>\<open>gov_data_for_map['display_name'] = gov_data_for_map['Name']\<close> writes a column of the
  frame at the address, adding it to the columns when it is new.
\<close>

definition set_display_name :: "nat \<Rightarrow> state \<Rightarrow> state option" where
  "set_display_name a s =
    (case heap s a of
       None \<Rightarrow> None
     | Some df \<Rightarrow>
        Some (s\<lparr>heap := (heap s)(a \<mapsto>
          \<lparr>columns = columns df @ filter (\<lambda>c. c \<notin> set (columns df)) [''display_name''],
           rows = map (\<lambda>r. r\<lparr>display_name := Some (Name r)\<rparr>) (rows df)\<rparr>)\<rparr>))"

definition name_mapping :: "(string \<times> string) list" where
  "name_mapping =
    [(''Ben Arous'', ''BenArous(TunisSud)''),
     (''Beja'', ''B'' @ [char_of (0xC3 :: nat), char_of (0xA9 :: nat)] @ ''ja''),
     (''Gabes'', ''Gab'' @ [char_of (0xC3 :: nat), char_of (0xA8 :: nat)] @ ''s''),
     (''Kasserine'', ''Kass'' @ [char_of (0xC3 :: nat), char_of (0xA9 :: nat)] @ ''rine''),
     (''Le Kef'', ''LeKef''),
     (''Manouba'', ''Manubah''),
     (''Medenine'', ''M'' @ [char_of (0xC3 :: nat), char_of (0xA9 :: nat)] @ ''denine''),
     (''Sidi Bouzid'', ''SidiBouZid'')]"

text \<open>
  \<open>Series.replace\<close> with a dictionary: a value that is a key becomes the value the
  dictionary gives it, every other value stays.
\<close>

definition replace :: "(string \<times> string) list \<Rightarrow> string \<Rightarrow> string" where
  "replace m v = (case map_of m v of None \<Rightarrow> v | Some w \<Rightarrow> w)"

text \<open>\<^verbatim>\<open>gov_data_for_map['Name'] = gov_data_for_map['Name'].replace(name_mapping)\<close>\<close>

definition set_Name_replaced :: "nat \<Rightarrow> state \<Rightarrow> state option" where
  "set_Name_replaced a s =
    (case heap s a of
       None \<Rightarrow> None
     | Some df \<Rightarrow>
        Some (s\<lparr>heap := (heap s)(a \<mapsto>
          df\<lparr>rows := map (\<lambda>r. r\<lparr>Name := replace name_mapping (Name r)\<rparr>) (rows df)\<rparr>)\<rparr>))"

text \<open>
  The block of the map page, from the address of \<open>df_poverty\<close> to the address of
  \<open>gov_data_for_map\<close>, which is what \<open>px.choropleth\<close> receives.
\<close>

definition gov_data_for_map :: "nat \<Rightarrow> state \<Rightarrow> (nat \<times> state) option" where
  "gov_data_for_map df_poverty s =
    (case select_gouvernorat df_poverty s of
       None \<Rightarrow> None
     | Some (selected, s1) \<Rightarrow>
        (case copy selected s1 of
           None \<Rightarrow> None
         | Some (m, s2) \<Rightarrow>
            (case set_display_name m s2 of
               None \<Rightarrow> None
             | Some s3 \<Rightarrow>
                (case set_Name_replaced m s3 of
                   None \<Rightarrow> None
                 | Some s4 \<Rightarrow> Some (m, s4)))))"

section \<open>The member list of a region, as the data model describes it\<close>

text \<open>
  The data model says of a regional record that its member list is the governorates
  belonging to the region, joined with commas for display, and that both tables come from
  one partition of the governorates. These two definitions follow those words, for the
  comparison with the strings that \<open>region_summary\<close> holds: the names that
  \<open>region_map\<close> sends to a region, in the order of the dictionary, and the joined text.
\<close>

definition members :: "string \<Rightarrow> string list" where
  "members region = map fst (filter (\<lambda>kv. snd kv = region) region_map)"

fun comma_join :: "string list \<Rightarrow> string" where
  "comma_join [] = []"
| "comma_join [x] = x"
| "comma_join (x # y # ys) = x @ '', '' @ comma_join (y # ys)"

section \<open>Facts about the enrichment\<close>

lemma enrich_rows: "rows (enrich raw) = map enrich_row raw"
  by (simp add: enrich_def concat_frames_def enriched_def df_delegations_def)

lemma enrich_columns:
  "columns (enrich raw) = [''Name'', ''Poverty_Rate'', ''Type'', ''Region'', ''Governorate'']"
  by (simp add: enrich_def concat_frames_def enriched_def df_delegations_def)

lemma region_values:
  "map_of region_map ` set (map fst region_map) = Some ` set region_summary_Region"
  by (simp add: region_map_def region_summary_Region_def insert_commute)

lemma df_regions_names: "map Region_name df_regions = region_summary_Region"
  by (simp add: df_regions_def region_summary_Region_def region_summary_Taux_Pauvrete_def
      region_summary_Population_def region_summary_Gouvernorats_def)

text \<open>
  Claim C1, as stated: a raw table with a governorate name that is not a key of
  \<open>region_map\<close> makes the load fail, and no returned table has a row with a null
  region. The code does otherwise: for the one-row table with the name \<open>Atlantis\<close>
  the load returns normally, and the region of the row is null.
\<close>

theorem enrich_unmapped_name_counterexample:
  "''Atlantis'' \<notin> fst ` set region_map \<and>
   load_data (Inr [(''Atlantis'', 25)]) (Inr ()) =
     Returned (Some (enrich [(''Atlantis'', 25)])) (Some ()) \<and>
   map Region (rows (enrich [(''Atlantis'', 25)])) = [None]"
  by (simp add: load_data_def enrich_rows enrich_row_def region_map_def)

text \<open>
  Claim C1, amended: when both files are read, the load returns the enriched table
  whatever the names are; the table has one row for each raw row, in the same order,
  the region of a row is what \<open>region_map\<close> gives for its name, and it is null
  exactly for the rows whose name is not a key.
\<close>

theorem enrich_unmapped_name_null_region:
  "load_data (Inr raw) (Inr g) = Returned (Some (enrich raw)) (Some g) \<and>
   length (rows (enrich raw)) = length raw \<and>
   (\<forall>i < length raw.
      Name (rows (enrich raw) ! i) = fst (raw ! i) \<and>
      Region (rows (enrich raw) ! i) = map_of region_map (fst (raw ! i)) \<and>
      (fst (raw ! i) \<notin> fst ` set region_map \<longleftrightarrow> Region (rows (enrich raw) ! i) = None))"
  by (simp add: load_data_def enrich_rows enrich_row_def map_of_eq_None_iff)

theorem enrich_unmapped_name_null_region_witness:
  "0 < length [(''Atlantis'', 25 :: real)] \<and>
   fst ([(''Atlantis'', 25 :: real)] ! 0) \<notin> fst ` set region_map \<and>
   Region (rows (enrich [(''Atlantis'', 25)]) ! 0) = None"
proof -
  have "''Atlantis'' \<notin> fst ` set region_map"
    by (simp add: region_map_def)
  then show ?thesis
    using enrich_unmapped_name_null_region [of "[(''Atlantis'', 25)]" "()"] by auto
qed

text \<open>
  Claim C2: for a raw table whose governorate names are exactly the 24 keys of
  \<open>region_map\<close>, the set of the region values of the enriched table is the set of
  the region names of the regional summary table, and that set has 7 elements.
\<close>

theorem region_set_consistency:
  "set (map fst raw) = set (map fst region_map) \<Longrightarrow>
   set (map Region (rows (enrich raw))) = Some ` set (map Region_name df_regions) \<and>
   card (set (map Region_name df_regions)) = 7 \<and>
   length region_map = 24"
proof -
  assume a: "set (map fst raw) = set (map fst region_map)"
  have "set (map Region (rows (enrich raw))) = map_of region_map ` set (map fst raw)"
    by (simp add: enrich_rows enrich_row_def image_image)
  also have "\<dots> = Some ` set region_summary_Region"
    using a region_values by simp
  finally have 1: "set (map Region (rows (enrich raw))) = Some ` set (map Region_name df_regions)"
    by (simp only: df_regions_names)
  have 2: "card (set (map Region_name df_regions)) = 7"
    unfolding df_regions_names by (simp add: region_summary_Region_def)
  have 3: "length region_map = 24"
    by (simp add: region_map_def)
  from 1 2 3 show ?thesis by simp
qed

theorem region_set_consistency_witness:
  "set (map fst (map (\<lambda>k. (k, 15.3 :: real)) (map fst region_map))) = set (map fst region_map) \<and>
   set (map Region (rows (enrich (map (\<lambda>k. (k, 15.3)) (map fst region_map))))) =
     Some ` set (map Region_name df_regions)"
proof -
  have h: "set (map fst (map (\<lambda>k. (k, 15.3 :: real)) (map fst region_map))) = set (map fst region_map)"
    by (simp add: comp_def)
  from region_set_consistency [OF h] h show ?thesis by blast
qed

section \<open>Facts about the rank\<close>

lemma rank_count: "rank rate xs = 1 + length (filter (\<lambda>r. rate < r) xs)"
  unfolding rank_def by (induction xs) auto

lemma filter_length_less:
  "\<forall>x \<in> set xs. P x \<longrightarrow> Q x \<Longrightarrow> \<exists>x \<in> set xs. Q x \<and> \<not> P x \<Longrightarrow>
   length (filter P xs) < length (filter Q xs)"
proof (induction xs)
  case Nil
  then show ?case by simp
next
  case (Cons x xs)
  have le: "length (filter P xs) \<le> length (filter Q xs)"
    using Cons.prems(1) by (induction xs) auto
  show ?case
  proof (cases "Q x \<and> \<not> P x")
    case True
    then show ?thesis using le by simp
  next
    case False
    then have "\<exists>y \<in> set xs. Q y \<and> \<not> P y"
      using Cons.prems(2) by auto
    then have "length (filter P xs) < length (filter Q xs)"
      using Cons by simp
    then show ?thesis using Cons.prems(1) by auto
  qed
qed

lemma rank_less:
  assumes "a \<in> set xs" and "b < a"
  shows "rank a xs < rank b xs"
proof -
  have "length (filter (\<lambda>r. a < r) xs) < length (filter (\<lambda>r. b < r) xs)"
    using assms by (intro filter_length_less) auto
  then show ?thesis by (simp add: rank_count)
qed

text \<open>
  Claim C3: the rank of a rate is 1 plus the number of rates of the table that are
  strictly greater; two governorates of the table with the same rate have the same rank,
  and of two governorates of the table the one with the greater rate has the smaller rank.
\<close>

theorem rank_monotone:
  fixes gd :: "gov_row list"
  shows "rank rate allRates = 1 + size {#r \<in># mset allRates. rate < r#} \<and>
   (\<forall>A \<in> set gd. \<forall>B \<in> set gd.
      (Poverty_Rate B < Poverty_Rate A \<longrightarrow>
         rank (Poverty_Rate A) (map Poverty_Rate gd) < rank (Poverty_Rate B) (map Poverty_Rate gd)) \<and>
      (Poverty_Rate A = Poverty_Rate B \<longrightarrow>
         rank (Poverty_Rate A) (map Poverty_Rate gd) = rank (Poverty_Rate B) (map Poverty_Rate gd)))"
proof -
  have "size {#r \<in># mset allRates. rate < r#} = length (filter (\<lambda>r. rate < r) allRates)"
    by (metis mset_filter size_mset)
  then have 1: "rank rate allRates = 1 + size {#r \<in># mset allRates. rate < r#}"
    by (simp add: rank_count)
  have 2: "rank (Poverty_Rate A) (map Poverty_Rate gd) < rank (Poverty_Rate B) (map Poverty_Rate gd)"
    if "A \<in> set gd" and "Poverty_Rate B < Poverty_Rate A" for A B :: gov_row
    using that by (intro rank_less) auto
  from 1 2 show ?thesis by auto
qed

theorem rank_monotone_witness:
  "enrich_row (''Le Kef'', 33.1) \<in> set (rows (enrich [(''Tunis'', 4.6), (''Le Kef'', 33.1)])) \<and>
   enrich_row (''Tunis'', 4.6) \<in> set (rows (enrich [(''Tunis'', 4.6), (''Le Kef'', 33.1)])) \<and>
   Poverty_Rate (enrich_row (''Tunis'', 4.6)) < Poverty_Rate (enrich_row (''Le Kef'', 33.1)) \<and>
   rank (Poverty_Rate (enrich_row (''Le Kef'', 33.1)))
     (map Poverty_Rate (rows (enrich [(''Tunis'', 4.6), (''Le Kef'', 33.1)])))
   < rank (Poverty_Rate (enrich_row (''Tunis'', 4.6)))
     (map Poverty_Rate (rows (enrich [(''Tunis'', 4.6), (''Le Kef'', 33.1)])))"
proof -
  let ?gd = "rows (enrich [(''Tunis'', 4.6), (''Le Kef'', 33.1)])"
  have a: "enrich_row (''Le Kef'', 33.1) \<in> set ?gd"
    and b: "enrich_row (''Tunis'', 4.6) \<in> set ?gd"
    by (simp_all add: enrich_rows)
  have lt: "Poverty_Rate (enrich_row (''Tunis'', 4.6)) < Poverty_Rate (enrich_row (''Le Kef'', 33.1))"
    by (simp add: enrich_row_def)
  from rank_monotone [of _ _ ?gd] a b lt show ?thesis by blast
qed

section \<open>Facts about the five poorest and the five richest\<close>








section \<open>Facts about the float rounding\<close>

text \<open>
  The rounding is what it is meant to be: \<open>ilog2\<close> is the binary exponent of a
  positive number, and \<open>binary64\<close> moves a number by at most half a unit in the last
  place of its binade.
\<close>

lemma round_half_even_near: "\<bar>x - of_int (round_half_even x)\<bar> \<le> 1 / 2"
  unfolding round_half_even_def Let_def by (auto; linarith)

lemma pow2_pos: "0 < pow2 e"
  by (simp add: pow2_def)

lemma pow2_Suc: "pow2 (e + 1) = 2 * pow2 e"
proof (cases "0 \<le> e")
  case True
  then show ?thesis by (simp add: pow2_def nat_add_distrib)
next
  case False
  then have e: "e < 0" by simp
  show ?thesis
  proof (cases "e = -1")
    case True
    then show ?thesis by (simp add: pow2_def)
  next
    case False
    with e have "nat (- e) = Suc (nat (- (e + 1)))" by simp
    then show ?thesis using e False by (simp add: pow2_def)
  qed
qed

lemma floor_bitlen_bounds:
  fixes x :: real
  assumes "1 \<le> x"
  shows "2 ^ nat (bitlen \<lfloor>x\<rfloor> - 1) \<le> x \<and> x < 2 ^ nat (bitlen \<lfloor>x\<rfloor>) \<and> 1 \<le> bitlen \<lfloor>x\<rfloor>"
proof -
  let ?m = "\<lfloor>x\<rfloor>"
  have m: "0 < ?m" using assms by simp
  from bitlen_bounds [OF m] have lo: "2 ^ nat (bitlen ?m - 1) \<le> ?m" and hi: "?m < 2 ^ nat (bitlen ?m)" by auto
  have b1: "1 \<le> bitlen ?m" using m by (simp add: bitlen_alt_def)
  have "real_of_int (2 ^ nat (bitlen ?m - 1)) \<le> x" using lo by (simp only: le_floor_iff)
  then have l: "2 ^ nat (bitlen ?m - 1) \<le> x" by simp
  have "?m + 1 \<le> 2 ^ nat (bitlen ?m)" using hi by simp
  then have "real_of_int (?m + 1) \<le> real_of_int (2 ^ nat (bitlen ?m))" by (simp only: of_int_le_iff)
  then have "real_of_int ?m + 1 \<le> 2 ^ nat (bitlen ?m)" by simp
  moreover have "x < real_of_int ?m + 1" by linarith
  ultimately have h: "x < 2 ^ nat (bitlen ?m)" by (rule less_le_trans [rotated])
  show ?thesis using l h b1 by simp
qed

lemma ilog2_bounds:
  assumes "0 < x"
  shows "pow2 (ilog2 x) \<le> x \<and> x < pow2 (ilog2 x + 1)"
proof (cases "1 \<le> x")
  case True
  from floor_bitlen_bounds [OF True] True show ?thesis
    by (simp add: ilog2_def pow2_def)
next
  case False
  define y where "y = 1 / x"
  define k where "k = bitlen \<lfloor>y\<rfloor> - 1"
  have y1: "1 < y" using assms False by (simp add: y_def)
  then have "1 \<le> y" by simp
  from floor_bitlen_bounds [OF this]
  have lo: "2 ^ nat k \<le> y" and hi: "y < 2 ^ nat (k + 1)" and k0: "0 \<le> k"
    by (simp_all add: k_def)
  have x: "x = 1 / y" using assms by (simp add: y_def)
  have ypos: "0 < y" using y1 by simp
  have ilog: "ilog2 x = (if y = 2 ^ nat k then - k else - k - 1)"
    using False by (simp add: ilog2_def Let_def y_def k_def)
  show ?thesis
  proof (cases "y = 2 ^ nat k")
    case True
    have "k \<noteq> 0" using True y1 by auto
    then have kpos: "0 < k" using k0 by simp
    have il: "ilog2 x = - k" using ilog True by simp
    have "pow2 (- k + 1) = 2 * pow2 (- k)" by (rule pow2_Suc)
    moreover have "pow2 (- k) = x" using kpos True x by (simp add: pow2_def)
    ultimately show ?thesis using il assms by simp
  next
    case ne: False
    have il: "ilog2 x = - k - 1" using ilog ne by simp
    have lt: "2 ^ nat k < y" using lo ne by simp
    have a: "pow2 (- k - 1) = 1 / 2 ^ nat (k + 1)" using k0 by (simp add: pow2_def)
    have b: "pow2 (- k) = 1 / 2 ^ nat k" using k0 by (cases "k = 0") (simp_all add: pow2_def)
    have "1 / 2 ^ nat (k + 1) < 1 / y" using hi ypos by (simp add: frac_less2)
    moreover have "1 / y < 1 / 2 ^ nat k" using lt by (simp add: frac_less2)
    ultimately show ?thesis using il a b x by simp
  qed
qed

lemma binary64_error:
  "\<bar>binary64 x - x\<bar> \<le> pow2 (max (ilog2 \<bar>x\<bar> - 52) (- 1074)) / 2"
proof (cases "x = 0")
  case True
  then show ?thesis using pow2_pos [of "max (ilog2 \<bar>x\<bar> - 52) (- 1074)"] by (simp add: binary64_def)
next
  case False
  define u where "u = pow2 (max (ilog2 \<bar>x\<bar> - 52) (- 1074))"
  have u: "0 < u" by (simp add: u_def pow2_pos)
  have "binary64 x - x = (of_int (round_half_even (x / u)) - x / u) * u"
    using False u by (simp add: binary64_def Let_def u_def [symmetric] algebra_simps)
  then have "\<bar>binary64 x - x\<bar> = \<bar>x / u - of_int (round_half_even (x / u))\<bar> * u"
    using u by (simp add: abs_mult abs_minus_commute)
  also have "\<dots> \<le> (1 / 2) * u"
    using round_half_even_near [of "x / u"] u by (intro mult_right_mono) simp_all
  finally show ?thesis by (simp add: u_def)
qed

section \<open>Facts about the estimate of the poor population\<close>

lemma df_regions_eq:
  "df_regions =
    [\<lparr>Region_name = ''Grand Tunis'', Taux_Pauvrete = binary64 (61 / 10),
       Population = 2719000, Gouvernorats = ''Tunis, Ariana, Ben Arous, Manouba''\<rparr>,
     \<lparr>Region_name = ''Nord-Est'', Taux_Pauvrete = binary64 (119 / 10),
       Population = 1533064, Gouvernorats = ''Nabeul, Zaghouan, Bizerte''\<rparr>,
     \<lparr>Region_name = ''Nord-Ouest'', Taux_Pauvrete = binary64 (258 / 10),
       Population = 1378596, Gouvernorats = ''Beja, Jendouba, Le Kef, Seliana''\<rparr>,
     \<lparr>Region_name = ''Centre-Est'', Taux_Pauvrete = binary64 (117 / 10),
       Population = 2580032, Gouvernorats = ''Sousse, Monastir, Mahdia, Sfax''\<rparr>,
     \<lparr>Region_name = ''Centre-Ouest'', Taux_Pauvrete = binary64 (293 / 10),
       Population = 1439714, Gouvernorats = ''Kairouan, Kasserine, Sidi Bouzid''\<rparr>,
     \<lparr>Region_name = ''Sud-Est'', Taux_Pauvrete = binary64 (178 / 10),
       Population = 1003273,
       Gouvernorats =
         ''Gabes, M'' @ [char_of (0xC3 :: nat), char_of (0xA9 :: nat)] @ ''denine, Tataouine''\<rparr>,
     \<lparr>Region_name = ''Sud-Ouest'', Taux_Pauvrete = binary64 (182 / 10),
       Population = 602204, Gouvernorats = ''Gafsa, Tozeur, Kebili''\<rparr>]"
  by (simp add: df_regions_def region_summary_Region_def region_summary_Taux_Pauvrete_def
      region_summary_Population_def region_summary_Gouvernorats_def)

lemma py_int_truncates: "\<bar>of_int (py_int x)\<bar> \<le> \<bar>x\<bar> \<and> \<bar>x - of_int (py_int x)\<bar> < 1"
  unfolding py_int_def by (auto; linarith)

lemma binary64_6_1: "binary64 (61 / 10) = 6867989431740006 / 2 ^ 50"
  by (simp add: binary64_def ilog2_def pow2_def round_half_even_def Let_def compute_bitlen)

lemma product_Grand_Tunis: "fmul (binary64 2719000) (binary64 (61 / 10)) = 16585900 - 1 / 2 ^ 29"
  by code_simp

text \<open>
  Claim C4, as stated: the estimate is the product rounded to the nearest integer, and
  it is 165,859 for a population of 2,719,000 and a rate of 6.1. The code cuts the
  fraction off instead. For the row of Nord-Est (1,533,064 inhabitants, rate 11.9) the
  exact value is 182,434.616 and the nearest integer 182,435, of the exact value as of
  the float; the code returns 182,434. For the row of Grand Tunis the float product is
  one unit in the last place below 16,585,900, the quotient is just below 165,859, and
  the code returns 165,858.
\<close>

theorem poor_population_counterexample:
  "Population (df_regions ! 1) = 1533064 \<and>
   Taux_Pauvrete (df_regions ! 1) = binary64 (119 / 10) \<and>
   poor_population (df_regions ! 1) = 182434 \<and>
   round (1533064 * (119 / 10) / 100 :: real) = 182435 \<and>
   round (fdiv (fmul (binary64 1533064) (binary64 (119 / 10))) 100) = 182435 \<and>
   Population (df_regions ! 0) = 2719000 \<and>
   Taux_Pauvrete (df_regions ! 0) = binary64 (61 / 10) \<and>
   poor_population (df_regions ! 0) = 165858"
  by code_simp

text \<open>
  Claim C4, amended: the estimate is the float value of population times rate divided
  by 100 with its fraction cut off, towards zero: its magnitude never exceeds that of
  the float quotient and it differs from it by less than 1. On the seven rows of the
  regional table it is 165,858; 182,434; 355,677; 301,863; 421,836; 178,582; 109,601.
\<close>

theorem poor_population_truncates:
  "map poor_population df_regions =
     [165858, 182434, 355677, 301863, 421836, 178582, 109601] \<and>
   \<bar>of_int (poor_population r)\<bar>
     \<le> \<bar>fdiv (fmul (binary64 (of_int (Population r))) (Taux_Pauvrete r)) 100\<bar> \<and>
   \<bar>fdiv (fmul (binary64 (of_int (Population r))) (Taux_Pauvrete r)) 100
      - of_int (poor_population r)\<bar> < 1"
proof -
  have "map poor_population df_regions =
     [165858, 182434, 355677, 301863, 421836, 178582, 109601]"
    by code_simp
  then show ?thesis
    using py_int_truncates [of "fdiv (fmul (binary64 (of_int (Population r))) (Taux_Pauvrete r)) 100"]
    by (simp add: poor_population_def)
qed

section \<open>Facts about the failures of the load\<close>

text \<open>
  Claim C7, as stated: a failing load returns a signal that tells three cases apart, a
  missing file, a malformed file, an incomplete region lookup, and does not crash. The
  code has one handler, for the missing file. A parser error of the CSV file and a
  decoding error of the geographic file leave \<open>load_data\<close> as exceptions, and a
  table with a name outside the lookup is returned as a success.
\<close>

theorem load_failure_counterexample:
  "load_data (Inl (OtherError ''ParserError'')) (Inr ()) = Raised (OtherError ''ParserError'') \<and>
   load_data (Inr [(''Tunis'', 4.6)]) (Inl (OtherError ''JSONDecodeError'') :: exn + unit) =
     Raised (OtherError ''JSONDecodeError'') \<and>
   load_data (Inr [(''Atlantis'', 25)]) (Inr ()) =
     Returned (Some (enrich [(''Atlantis'', 25)])) (Some ())"
  by (simp add: load_data_def handler_def)

text \<open>
  Claim C7, amended: the load has one failure signal, the pair \<open>(None, None)\<close>,
  returned exactly when one of the two files is missing (the CSV file, or the geographic
  file after the CSV file was read); every other exception of a read leaves the function
  uncaught; and when both files are read the load succeeds with the enriched table,
  whether or not the region lookup covers its names.
\<close>

theorem load_failure_signal:
  "(load_data csv geo = Returned None None \<longleftrightarrow>
      csv = Inl FileNotFoundError \<or> (\<exists>raw. csv = Inr raw) \<and> geo = Inl FileNotFoundError) \<and>
   (load_data csv geo = Raised e \<longleftrightarrow>
      e \<noteq> FileNotFoundError \<and> (csv = Inl e \<or> (\<exists>raw. csv = Inr raw) \<and> geo = Inl e)) \<and>
   (load_data csv geo = Returned (Some df) (Some g) \<longleftrightarrow>
      (\<exists>raw. csv = Inr raw \<and> df = enrich raw) \<and> geo = Inr g)"
  by (auto simp add: load_data_def handler_def split: sum.splits)

theorem load_failure_signal_witness:
  "load_data (Inl FileNotFoundError) (Inr ()) = Returned None None \<and>
   load_data (Inr [(''Tunis'', 4.6)]) (Inl FileNotFoundError :: exn + unit) = Returned None None"
  using load_failure_signal [of "Inl FileNotFoundError" "Inr ()"]
    load_failure_signal [of "Inr [(''Tunis'', 4.6)]" "Inl FileNotFoundError :: exn + unit"]
  by blast

section \<open>Facts about the placeholder of the delegations\<close>

text \<open>
  Claim C8, as stated: the placeholder has no row, and its columns are those of a
  governorate record without the rate. The first half holds. The columns do include
  \<open>Poverty_Rate\<close>, and they include \<open>Governorate\<close>, which the governorate
  table, whose column of that name was renamed, does not have.
\<close>

theorem delegations_schema_counterexample:
  "''Poverty_Rate'' \<in> set (columns df_delegations) \<and>
   ''Governorate'' \<in> set (columns df_delegations) \<and>
   ''Governorate'' \<notin> set (columns (enriched [(''Tunis'', 4.6)])) \<and>
   set (columns df_delegations) \<noteq> set (columns (enriched [(''Tunis'', 4.6)])) - {''Poverty_Rate''}"
  by (auto simp add: df_delegations_def enriched_def)

text \<open>
  Claim C8, amended: the placeholder has no row and adds none to the output, which has
  one row for each raw row; its columns are \<open>Name\<close>, \<open>Governorate\<close>,
  \<open>Region\<close>, \<open>Poverty_Rate\<close>, \<open>Type\<close>, that is the columns of the
  governorate table, the rate among them, and the column \<open>Governorate\<close>.
\<close>

theorem delegations_placeholder_empty:
  "rows df_delegations = [] \<and>
   rows (enrich raw) = rows (enriched raw) \<and>
   length (rows (enrich raw)) = length raw \<and>
   columns df_delegations = [''Name'', ''Governorate'', ''Region'', ''Poverty_Rate'', ''Type''] \<and>
   set (columns df_delegations) = set (columns (enriched raw)) \<union> {''Governorate''}"
  by (auto simp add: df_delegations_def enriched_def enrich_def concat_frames_def)

section \<open>Facts about the frame of the map\<close>

lemma gov_data_for_map_result:
  assumes "heap s a = Some df" and "a < next_addr s"
  shows "gov_data_for_map a s = Some (Suc (next_addr s),
      s\<lparr>heap := (heap s)(next_addr s \<mapsto> gov_data df, Suc (next_addr s) \<mapsto>
           \<lparr>columns = columns df @ filter (\<lambda>c. c \<notin> set (columns df)) [''display_name''],
            rows = map (\<lambda>r. r\<lparr>display_name := Some (Name r),
                               Name := replace name_mapping (Name r)\<rparr>)
                     (filter (\<lambda>r. Type r = ''Gouvernorat'') (rows df))\<rparr>),
        next_addr := Suc (Suc (next_addr s))\<rparr>)"
  using assms
  by (simp add: gov_data_for_map_def select_gouvernorat_def copy_def new_frame_def
      set_display_name_def set_Name_replaced_def gov_data_def comp_def)

text \<open>
  Claim C9: the block of the map page leaves the canonical table as it was, every cell
  of every row, the name included, and every other frame that existed; the join keys
  are written to a new frame only, in which the name of a row is its join key and
  \<open>display_name\<close> its canonical name, the other cells as in the canonical table; a
  name that \<open>name_mapping\<close> does not have is its own join key.
\<close>

theorem map_names_leave_table_unchanged:
  "heap s a = Some df \<Longrightarrow> a < next_addr s \<Longrightarrow>
   (case gov_data_for_map a s of
      None \<Rightarrow> False
    | Some (m, s') \<Rightarrow>
        m \<noteq> a \<and> heap s' a = Some df \<and>
        (\<forall>b < next_addr s. heap s' b = heap s b) \<and>
        (case heap s' m of
           None \<Rightarrow> False
         | Some mf \<Rightarrow>
             map Name (rows mf) = map (\<lambda>r. replace name_mapping (Name r)) (rows (gov_data df)) \<and>
             map display_name (rows mf) = map (\<lambda>r. Some (Name r)) (rows (gov_data df)) \<and>
             map Poverty_Rate (rows mf) = map Poverty_Rate (rows (gov_data df)) \<and>
             map Region (rows mf) = map Region (rows (gov_data df)) \<and>
             map Type (rows mf) = map Type (rows (gov_data df)) \<and>
             (\<forall>r \<in> set (rows (gov_data df)).
                Name r \<notin> fst ` set name_mapping \<longrightarrow> replace name_mapping (Name r) = Name r)))"
  by (simp add: gov_data_for_map_result gov_data_def comp_def replace_def
      map_of_eq_None_iff [THEN iffD2] split: option.splits)

theorem map_names_leave_table_unchanged_witness:
  "heap \<lparr>heap = [0 \<mapsto> enrich [(''Beja'', 32), (''Tunis'', 4.6)]], next_addr = 1\<rparr> 0 =
     Some (enrich [(''Beja'', 32), (''Tunis'', 4.6)]) \<and>
   0 < next_addr \<lparr>heap = [0 \<mapsto> enrich [(''Beja'', 32), (''Tunis'', 4.6)]], next_addr = 1\<rparr> \<and>
   (case gov_data_for_map 0
           \<lparr>heap = [0 \<mapsto> enrich [(''Beja'', 32), (''Tunis'', 4.6)]], next_addr = 1\<rparr> of
      None \<Rightarrow> False
    | Some (m, s') \<Rightarrow>
        heap s' 0 = Some (enrich [(''Beja'', 32), (''Tunis'', 4.6)]) \<and>
        map_option (\<lambda>mf. map Name (rows mf)) (heap s' m) =
          Some [''B'' @ [char_of (0xC3 :: nat), char_of (0xA9 :: nat)] @ ''ja'', ''Tunis''])"
proof -
  let ?s = "\<lparr>heap = [0 \<mapsto> enrich [(''Beja'', 32), (''Tunis'', 4.6)]], next_addr = 1\<rparr>"
  have h1: "heap ?s 0 = Some (enrich [(''Beja'', 32), (''Tunis'', 4.6)])"
    by simp
  have h2: "0 < next_addr ?s"
    by simp
  have names: "map (\<lambda>r. replace name_mapping (Name r))
      (rows (gov_data (enrich [(''Beja'', 32), (''Tunis'', 4.6)]))) =
      [''B'' @ [char_of (0xC3 :: nat), char_of (0xA9 :: nat)] @ ''ja'', ''Tunis'']"
    by (simp add: gov_data_def enrich_rows enrich_row_def replace_def name_mapping_def)
  from map_names_leave_table_unchanged [OF h1 h2] h1 h2 names show ?thesis
    by (auto split: option.splits)
qed

section \<open>Facts about the member lists of the regional table\<close>

text \<open>
  Claim C10: the member list of every regional record is the governorates that
  \<open>region_map\<close> sends to the region of the record. The two tables of the script
  disagree in two records: the list of Nord-Ouest says \<open>Seliana\<close> where the key of
  \<open>region_map\<close> is \<open>Siliana\<close>, and the list of Sud-Est writes \<open>Medenine\<close>
  with an accent, which the key does not have. The five other lists are the joined keys.
\<close>

theorem member_names_mismatch:
  "map (\<lambda>r. Gouvernorats r = comma_join (members (Region_name r))) df_regions =
     [True, True, False, True, True, False, True] \<and>
   Gouvernorats (df_regions ! 2) = ''Beja, Jendouba, Le Kef, Seliana'' \<and>
   comma_join (members (Region_name (df_regions ! 2))) = ''Beja, Jendouba, Le Kef, Siliana'' \<and>
   Gouvernorats (df_regions ! 5) =
     ''Gabes, M'' @ [char_of (0xC3 :: nat), char_of (0xA9 :: nat)] @ ''denine, Tataouine'' \<and>
   comma_join (members (Region_name (df_regions ! 5))) = ''Gabes, Medenine, Tataouine'' \<and>
   distinct (map fst region_map)"
  unfolding df_regions_eq by (simp add: members_def region_map_def)

end
